theory Spec2Isabelle
  imports Complex_Main "HOL-Library.AList"
begin

section \<open>Python values\<close>

text \<open>
  The token record, the provider's responses and the audio features are untyped Python
  values read from JSON. A dict is an association list in insertion order; Python's
  \<^verbatim>\<open>None\<close> is \<open>JNull\<close>. Numbers are real numbers: the rounding of IEEE doubles is
  not part of this model.
\<close>

datatype json =
    JNull
  | JBool bool
  | JNum real
  | JStr string
  | JArr "json list"
  | JObj "(string \<times> json) list"

type_synonym dict = "(string \<times> json) list"

text \<open>\<^verbatim>\<open>d.get(k)\<close> and \<^verbatim>\<open>k in d\<close> read the dict; \<^verbatim>\<open>d[k] = v\<close> replaces the value of
  an existing key in place and appends a new key at the end.\<close>

definition dict_get :: "dict \<Rightarrow> string \<Rightarrow> json option" where
  "dict_get d k = map_of d k"

definition dict_set :: "dict \<Rightarrow> string \<Rightarrow> json \<Rightarrow> dict" where
  "dict_set d k v = AList.update k v d"

text \<open>Truth value of a Python object, as \<^verbatim>\<open>if x\<close> and \<^verbatim>\<open>not x\<close> test it.\<close>

fun truthy :: "json \<Rightarrow> bool" where
  "truthy JNull = False"
| "truthy (JBool b) = b"
| "truthy (JNum r) = (r \<noteq> 0)"
| "truthy (JStr s) = (s \<noteq> [])"
| "truthy (JArr xs) = (xs \<noteq> [])"
| "truthy (JObj d) = (d \<noteq> [])"

text \<open>The operand of \<^verbatim>\<open>+\<close> and \<^verbatim>\<open>-\<close> with a float: numbers and booleans are
  accepted, every other value raises \<^verbatim>\<open>TypeError\<close>.\<close>

fun num_of :: "json \<Rightarrow> real option" where
  "num_of (JNum r) = Some r"
| "num_of (JBool b) = Some (if b then 1 else 0)"
| "num_of _ = None"

text \<open>\<^verbatim>\<open>needle in haystack\<close> on two strings.\<close>

fun str_contains :: "string \<Rightarrow> string \<Rightarrow> bool" where
  "str_contains [] needle = (needle = [])"
| "str_contains (c # cs) needle =
     (take (length needle) (c # cs) = needle \<or> str_contains cs needle)"

section \<open>Exceptions\<close>

text \<open>
  One constructor for each exception class that the modelled code raises, catches or lets
  through. \<open>OSError\<close> is also Python's \<^verbatim>\<open>IOError\<close>, with the name of the subclass;
  \<open>RequestException\<close> stands for \<^verbatim>\<open>requests.RequestException\<close> and its subclasses
  with their message; \<open>SpotifyException\<close> carries \<^verbatim>\<open>http_status\<close> and \<^verbatim>\<open>headers\<close>
  (\<open>None\<close> when the library set no headers).
\<close>

datatype exn =
    ValueError string
  | KeyError string
  | IndexError
  | TypeError
  | AttributeError
  | UnicodeDecodeError
  | JSONDecodeError
  | OSError string
  | RequestException string
  | SpotifyException int "(string \<times> string) list option"
  | Exception string

section \<open>The world outside the program\<close>

text \<open>
  A file is known by what reading it as text and decoding it as JSON gives: a value, a
  \<^verbatim>\<open>json.JSONDecodeError\<close> (text that is not JSON), or a \<^verbatim>\<open>UnicodeDecodeError\<close>
  (bytes that are not text in the platform's encoding, such as the single byte 0xFF under
  UTF-8). The file system is flat: a path is a directory, a file, or absent.
\<close>

datatype file_data = JsonText json | Malformed | Undecodable

datatype node = Dir | File file_data

record post_request =
  url :: string
  data :: dict
  auth :: "string \<times> string"
  headers :: "(string \<times> string) list"

datatype body = JsonBody json | NotJson string

record http_response =
  status_code :: int
  reason :: string
  body :: body

datatype post_outcome = ConnectionFailed string | Responded http_response

text \<open>A page of a paginated endpoint: \<open>items\<close> is \<open>None\<close> when the key is missing, and
  \<open>next_url\<close> is the value of \<^verbatim>\<open>results.get("next")\<close>, the continuation pointer
  (\<open>JNull\<close> when the page has none).\<close>

record page =
  items :: "json list option"
  next_url :: json

datatype api_request =
    TopTracks string int
  | NextPage json
  | AudioFeatures "string list"

datatype event =
    Slept real
  | Posted post_request
  | Requested json api_request

text \<open>
  The state of everything outside the program. \<open>trace\<close> is the history of the program's
  interactions; the clock, the token endpoint and the Web API are functions of that history
  (ending with the current request), so any deterministic environment is one of these
  worlds. \<open>Requested tok r\<close> is a request sent by a client bound to access token \<open>tok\<close>.
\<close>

record world =
  nodes :: "string \<Rightarrow> node option"
  environ :: "string \<Rightarrow> string option"
  trace :: "event list"
  clock :: "event list \<Rightarrow> real"
  token_endpoint :: "event list \<Rightarrow> post_outcome"
  pages_api :: "event list \<Rightarrow> exn + page"
  features_api :: "event list \<Rightarrow> exn + json list"

definition time_time :: "world \<Rightarrow> real" where
  "time_time w = clock w (trace w)"

definition log_event :: "event \<Rightarrow> world \<Rightarrow> world" where
  "log_event ev w = w\<lparr>trace := trace w @ [ev]\<rparr>"

text \<open>\<^verbatim>\<open>time.sleep\<close> refuses a negative length.\<close>

definition time_sleep :: "real \<Rightarrow> world \<Rightarrow> (exn + unit) \<times> world" where
  "time_sleep d w =
     (if d < 0 then (Inl (ValueError ''sleep length must be non-negative''), w)
      else (Inr (), log_event (Slept d) w))"

section \<open>auth.py\<close>

definition SPOTIFY_TOKEN_URL :: string where
  "SPOTIFY_TOKEN_URL = ''https://accounts.spotify.com/api/token''"

definition TOKEN_FILE :: string where
  "TOKEN_FILE = ''data/token.json''"

subsection \<open>get\_client\_credentials\<close>

definition os_getenv :: "string \<Rightarrow> world \<Rightarrow> string option" where
  "os_getenv k w = environ w k"

definition get_client_credentials :: "world \<Rightarrow> exn + (string \<times> string \<times> string)" where
  "get_client_credentials w =
     (let client_id = os_getenv ''SPOTIFY_CLIENT_ID'' w;
          client_secret = os_getenv ''SPOTIFY_CLIENT_SECRET'' w;
          redirect_uri = (case os_getenv ''SPOTIFY_REDIRECT_URI'' w of
                            None \<Rightarrow> ''http://localhost:8888/callback''
                          | Some u \<Rightarrow> u)
      in case (client_id, client_secret) of
           (Some i, Some s) \<Rightarrow>
             if i = [] \<or> s = [] then
               Inl (ValueError ''Missing Spotify credentials. Please set SPOTIFY_CLIENT_ID and SPOTIFY_CLIENT_SECRET in your .env file or environment variables.'')
             else Inr (i, s, redirect_uri)
         | _ \<Rightarrow>
             Inl (ValueError ''Missing Spotify credentials. Please set SPOTIFY_CLIENT_ID and SPOTIFY_CLIENT_SECRET in your .env file or environment variables.''))"

subsection \<open>save\_tokens and load\_tokens\<close>

text \<open>\<^verbatim>\<open>os.path.dirname\<close>: the path up to its last slash, trailing slashes removed unless
  the head consists of slashes only.\<close>

definition os_path_dirname :: "string \<Rightarrow> string" where
  "os_path_dirname p =
     (let head = rev (dropWhile (\<lambda>c. c \<noteq> CHR ''/'') (rev p))
      in if head \<noteq> [] \<and> \<not> list_all (\<lambda>c. c = CHR ''/'') head
         then rev (dropWhile (\<lambda>c. c = CHR ''/'') (rev head))
         else head)"

definition os_path_exists :: "string \<Rightarrow> world \<Rightarrow> bool" where
  "os_path_exists p w = (nodes w p \<noteq> None)"

text \<open>\<^verbatim>\<open>os.makedirs(name, exist_ok=True)\<close> on the flat file system: the empty name is
  refused, an existing directory is accepted, an existing file is not.\<close>

definition os_makedirs :: "string \<Rightarrow> world \<Rightarrow> (exn + unit) \<times> world" where
  "os_makedirs name w =
     (if name = [] then (Inl (OSError ''FileNotFoundError''), w)
      else case nodes w name of
             None \<Rightarrow> (Inr (), w\<lparr>nodes := (nodes w)(name \<mapsto> Dir)\<rparr>)
           | Some Dir \<Rightarrow> (Inr (), w)
           | Some (File _) \<Rightarrow> (Inl (OSError ''FileExistsError''), w))"

text \<open>\<^verbatim>\<open>with open(filepath, "w") as f: json.dump(token_data, f, indent=2)\<close>: the file
  then holds a JSON document of \<open>token_data\<close>.\<close>

definition write_json :: "string \<Rightarrow> json \<Rightarrow> world \<Rightarrow> (exn + unit) \<times> world" where
  "write_json filepath v w =
     (case nodes w filepath of
        Some Dir \<Rightarrow> (Inl (OSError ''IsADirectoryError''), w)
      | _ \<Rightarrow> (Inr (), w\<lparr>nodes := (nodes w)(filepath \<mapsto> File (JsonText v))\<rparr>))"

definition save_tokens :: "dict \<Rightarrow> string \<Rightarrow> world \<Rightarrow> (exn + unit) \<times> world" where
  "save_tokens token_data filepath w =
     (case os_makedirs (os_path_dirname filepath) w of
        (Inl e, w1) \<Rightarrow> (Inl e, w1)
      | (Inr _, w1) \<Rightarrow> write_json filepath (JObj token_data) w1)"

text \<open>\<^verbatim>\<open>with open(filepath, "r") as f: return json.load(f)\<close>, with the exception each
  kind of content raises.\<close>

definition read_json :: "string \<Rightarrow> world \<Rightarrow> exn + json" where
  "read_json filepath w =
     (case nodes w filepath of
        None \<Rightarrow> Inl (OSError ''FileNotFoundError'')
      | Some Dir \<Rightarrow> Inl (OSError ''IsADirectoryError'')
      | Some (File (JsonText v)) \<Rightarrow> Inr v
      | Some (File Malformed) \<Rightarrow> Inl JSONDecodeError
      | Some (File Undecodable) \<Rightarrow> Inl UnicodeDecodeError)"

text \<open>The result \<open>JNull\<close> is Python's \<^verbatim>\<open>None\<close>. The handler is
  \<^verbatim>\<open>except (json.JSONDecodeError, IOError)\<close>; any other exception leaves the function.\<close>

definition load_tokens :: "string \<Rightarrow> world \<Rightarrow> exn + json" where
  "load_tokens filepath w =
     (if \<not> os_path_exists filepath w then Inr JNull
      else case read_json filepath w of
             Inr v \<Rightarrow> Inr v
           | Inl JSONDecodeError \<Rightarrow> Inr JNull
           | Inl (OSError _) \<Rightarrow> Inr JNull
           | Inl e \<Rightarrow> Inl e)"

subsection \<open>is\_token\_expired\<close>

text \<open>\<open>t\<close> is the value of \<^verbatim>\<open>time.time()\<close>.\<close>

definition is_token_expired :: "dict \<Rightarrow> real \<Rightarrow> exn + bool" where
  "is_token_expired token_data t =
     (let expires_at = (case dict_get token_data ''expires_at'' of
                          None \<Rightarrow> JNum 0 | Some v \<Rightarrow> v)
      in case num_of expires_at of
           None \<Rightarrow> Inl TypeError
         | Some e \<Rightarrow> Inr (t \<ge> e - 60))"

subsection \<open>refresh\_access\_token\<close>

fun str_of_nat :: "nat \<Rightarrow> string" where
  "str_of_nat n =
     (if n < 10 then [char_of (48 + n)]
      else str_of_nat (n div 10) @ [char_of (48 + n mod 10)])"

text \<open>\<^verbatim>\<open>requests.post\<close>: the request is sent, and the token endpoint answers or the
  connection fails with a \<^verbatim>\<open>RequestException\<close>.\<close>

definition requests_post :: "post_request \<Rightarrow> world \<Rightarrow> (exn + http_response) \<times> world" where
  "requests_post rq w =
     (let w1 = log_event (Posted rq) w
      in case token_endpoint w1 (trace w1) of
           ConnectionFailed msg \<Rightarrow> (Inl (RequestException msg), w1)
         | Responded r \<Rightarrow> (Inr r, w1))"

text \<open>\<^verbatim>\<open>response.raise_for_status()\<close> raises \<^verbatim>\<open>HTTPError\<close>, a
  \<^verbatim>\<open>RequestException\<close>, on a status from 400 to 599.\<close>

definition raise_for_status :: "string \<Rightarrow> http_response \<Rightarrow> exn + unit" where
  "raise_for_status u r =
     (if 400 \<le> status_code r \<and> status_code r < 500 then
        Inl (RequestException (str_of_nat (nat (status_code r)) @ '' Client Error: ''
                                @ reason r @ '' for url: '' @ u))
      else if 500 \<le> status_code r \<and> status_code r < 600 then
        Inl (RequestException (str_of_nat (nat (status_code r)) @ '' Server Error: ''
                                @ reason r @ '' for url: '' @ u))
      else Inr ())"

text \<open>\<^verbatim>\<open>response.json()\<close>; its decoding error is a \<^verbatim>\<open>RequestException\<close> too.\<close>

definition response_json :: "http_response \<Rightarrow> exn + json" where
  "response_json r =
     (case body r of JsonBody v \<Rightarrow> Inr v | NotJson msg \<Rightarrow> Inl (RequestException msg))"

text \<open>
  Lines 218 to 225 of \<^verbatim>\<open>auth.py\<close>, on the decoded response and the value \<open>t\<close> of
  \<^verbatim>\<open>time.time()\<close>: keep the caller's refresh token when the response has none, then
  stamp the expiry. A response that is not a dict fails at the membership test, at the
  item assignment (\<^verbatim>\<open>TypeError\<close>) or at \<^verbatim>\<open>.get\<close> (\<^verbatim>\<open>AttributeError\<close>).
\<close>

definition update_token_data :: "json \<Rightarrow> json \<Rightarrow> real \<Rightarrow> exn + dict" where
  "update_token_data refresh_token token_data t =
     (case token_data of
        JObj d \<Rightarrow>
          (let d1 = (if dict_get d ''refresh_token'' = None
                     then dict_set d ''refresh_token'' refresh_token else d);
               expires_in = (case dict_get d1 ''expires_in'' of
                               None \<Rightarrow> JNum 3600 | Some v \<Rightarrow> v)
           in case num_of expires_in of
                None \<Rightarrow> Inl TypeError
              | Some x \<Rightarrow> Inr (dict_set d1 ''expires_at'' (JNum (t + x))))
      | JArr xs \<Rightarrow>
          if JStr ''refresh_token'' \<in> set xs then Inl AttributeError else Inl TypeError
      | JStr s \<Rightarrow>
          if str_contains s ''refresh_token'' then Inl AttributeError else Inl TypeError
      | _ \<Rightarrow> Inl TypeError)"

text \<open>The request that \<^verbatim>\<open>requests.post\<close> is called with.\<close>

definition refresh_request :: "string \<Rightarrow> string \<Rightarrow> json \<Rightarrow> post_request" where
  "refresh_request client_id client_secret refresh_token =
     \<lparr>url = SPOTIFY_TOKEN_URL,
      data = [(''grant_type'', JStr ''refresh_token''), (''refresh_token'', refresh_token)],
      auth = (client_id, client_secret),
      headers = [(''Content-Type'', ''application/x-www-form-urlencoded'')]\<rparr>"

definition refresh_access_token :: "json \<Rightarrow> world \<Rightarrow> (exn + dict) \<times> world" where
  "refresh_access_token refresh_token w =
     (case get_client_credentials w of
        Inl e \<Rightarrow> (Inl e, w)
      | Inr (client_id, client_secret, _) \<Rightarrow>
          (let rq = refresh_request client_id client_secret refresh_token
           in case requests_post rq w of
                (Inl e, w1) \<Rightarrow> (Inl e, w1)
              | (Inr response, w1) \<Rightarrow>
                  (case raise_for_status (url rq) response of
                     Inl e \<Rightarrow> (Inl e, w1)
                   | Inr _ \<Rightarrow>
                       (case response_json response of
                          Inl e \<Rightarrow> (Inl e, w1)
                        | Inr token_data \<Rightarrow>
                            (update_token_data refresh_token token_data (time_time w1), w1)))))"

subsection \<open>get\_valid\_token\<close>

text \<open>\<^verbatim>\<open>d[k]\<close> on a dict.\<close>

definition dict_item :: "dict \<Rightarrow> string \<Rightarrow> exn + json" where
  "dict_item d k = (case dict_get d k of None \<Rightarrow> Inl (KeyError k) | Some v \<Rightarrow> Inr v)"

text \<open>\<^verbatim>\<open>except requests.RequestException as e: raise ValueError(...)\<close>.\<close>

definition refresh_handler :: "exn \<Rightarrow> exn" where
  "refresh_handler e =
     (case e of
        RequestException msg \<Rightarrow> ValueError (''Failed to refresh token: '' @ msg)
      | _ \<Rightarrow> e)"

text \<open>The loaded value is any JSON value; \<^verbatim>\<open>.get\<close> on one that is not a dict raises
  \<^verbatim>\<open>AttributeError\<close>.\<close>

definition get_valid_token :: "world \<Rightarrow> (exn + json) \<times> world" where
  "get_valid_token w =
     (case load_tokens TOKEN_FILE w of
        Inl e \<Rightarrow> (Inl e, w)
      | Inr token_data \<Rightarrow>
          if \<not> truthy token_data then
            (Inl (ValueError ''No tokens found. Please run authenticate() first to obtain tokens.''), w)
          else
            (case token_data of
               JObj d \<Rightarrow>
                 (case is_token_expired d (time_time w) of
                    Inl e \<Rightarrow> (Inl e, w)
                  | Inr expired \<Rightarrow>
                      if expired then
                        (case dict_get d ''refresh_token'' of
                           None \<Rightarrow>
                             (Inl (ValueError ''Token expired and no refresh token available.''), w)
                         | Some rt \<Rightarrow>
                             (case refresh_access_token rt w of
                                (Inl e, w1) \<Rightarrow> (Inl (refresh_handler e), w1)
                              | (Inr d', w1) \<Rightarrow>
                                  (case save_tokens d' TOKEN_FILE w1 of
                                     (Inl e, w2) \<Rightarrow> (Inl (refresh_handler e), w2)
                                   | (Inr _, w2) \<Rightarrow> (dict_item d' ''access_token'', w2))))
                      else (dict_item d ''access_token'', w))
             | _ \<Rightarrow> (Inl AttributeError, w)))"

subsection \<open>extract\_code\_from\_url\<close>

text \<open>
  The two library calls are modelled on byte strings. \<open>urlparse_query\<close> is the
  \<^verbatim>\<open>query\<close> component of \<^verbatim>\<open>urlparse(url)\<close>: leading control characters and spaces
  are stripped, tabs and newlines removed, a scheme and a network location split off, then
  the fragment after the first \<^verbatim>\<open>#\<close> and the query after the first \<^verbatim>\<open>?\<close>. A network
  location with one bracket but not the other raises \<^verbatim>\<open>ValueError\<close>; the library's
  further checks of a bracketed host and of a non-ASCII host are not modelled.
\<close>

definition is_alpha :: "char \<Rightarrow> bool" where
  "is_alpha c = ((97 \<le> (of_char c :: nat) \<and> (of_char c :: nat) \<le> 122)
                \<or> (65 \<le> (of_char c :: nat) \<and> (of_char c :: nat) \<le> 90))"

definition is_digit :: "char \<Rightarrow> bool" where
  "is_digit c = (48 \<le> (of_char c :: nat) \<and> (of_char c :: nat) \<le> 57)"

definition is_scheme_char :: "char \<Rightarrow> bool" where
  "is_scheme_char c = (is_alpha c \<or> is_digit c \<or> c \<in> set ''+-.'')"

definition strip_url :: "string \<Rightarrow> string" where
  "strip_url u =
     filter (\<lambda>c. c \<notin> {CHR 0x09, CHR 0x0A, CHR 0x0D})
       (dropWhile (\<lambda>c. (of_char c :: nat) \<le> 32) u)"

definition drop_scheme :: "string \<Rightarrow> string" where
  "drop_scheme u =
     (let pre = takeWhile (\<lambda>c. c \<noteq> CHR '':'') u
      in if length pre < length u \<and> pre \<noteq> [] \<and> is_alpha (hd pre) \<and> list_all is_scheme_char pre
         then drop (length pre + 1) u else u)"

definition urlparse_query :: "string \<Rightarrow> exn + string" where
  "urlparse_query redirect_url =
     (let u = drop_scheme (strip_url redirect_url);
          netloc = (if take 2 u = ''//''
                    then takeWhile (\<lambda>c. c \<notin> set ''/?#'') (drop 2 u) else []);
          rest = (if take 2 u = ''//''
                  then dropWhile (\<lambda>c. c \<notin> set ''/?#'') (drop 2 u) else u)
      in if (CHR ''['' \<in> set netloc \<and> CHR '']'' \<notin> set netloc)
            \<or> (CHR '']'' \<in> set netloc \<and> CHR ''['' \<notin> set netloc)
         then Inl (ValueError ''Invalid IPv6 URL'')
         else Inr (drop 1 (dropWhile (\<lambda>c. c \<noteq> CHR ''?'')
                             (takeWhile (\<lambda>c. c \<noteq> CHR ''#'') rest))))"

text \<open>\<^verbatim>\<open>s.split(sep)\<close> for a separator of one character.\<close>

fun split_on :: "char \<Rightarrow> string \<Rightarrow> string list" where
  "split_on sep [] = [[]]"
| "split_on sep (c # cs) =
     (if c = sep then [] # split_on sep cs
      else (case split_on sep cs of
              [] \<Rightarrow> [[c]]
            | g # gs \<Rightarrow> (c # g) # gs))"

definition hexval :: "char \<Rightarrow> nat option" where
  "hexval c =
     (if is_digit c then Some (of_char c - 48)
      else if 97 \<le> (of_char c :: nat) \<and> (of_char c :: nat) \<le> 102 then Some (of_char c - 87)
      else if 65 \<le> (of_char c :: nat) \<and> (of_char c :: nat) \<le> 70 then Some (of_char c - 55)
      else None)"

text \<open>\<^verbatim>\<open>unquote_plus\<close>: a plus sign is a space and \<^verbatim>\<open>%XX\<close> is the byte \<open>XX\<close>; an
  escape that is not two hex digits stays as it is. The replacement character that the
  library puts for bytes that are not UTF-8 is not modelled.\<close>

fun unquote :: "string \<Rightarrow> string" where
  "unquote [] = []"
| "unquote (c # cs) =
     (if c = CHR ''%'' then
        (case cs of
           a # b # rest \<Rightarrow>
             (case (hexval a, hexval b) of
                (Some x, Some y) \<Rightarrow> char_of (16 * x + y) # unquote rest
              | _ \<Rightarrow> c # unquote cs)
         | _ \<Rightarrow> c # unquote cs)
      else c # unquote cs)"

definition unquote_plus :: "string \<Rightarrow> string" where
  "unquote_plus s = unquote (map (\<lambda>c. if c = CHR ''+'' then CHR '' '' else c) s)"

text \<open>\<^verbatim>\<open>parse_qsl\<close> with its defaults: fields are separated by \<^verbatim>\<open>&\<close>, the name ends
  at the first \<^verbatim>\<open>=\<close>, and a field with a blank value is dropped.\<close>

definition parse_qsl :: "string \<Rightarrow> (string \<times> string) list" where
  "parse_qsl qs =
     (if qs = [] then []
      else concat (map (\<lambda>name_value.
             let name = takeWhile (\<lambda>c. c \<noteq> CHR ''='') name_value;
                 val = drop 1 (dropWhile (\<lambda>c. c \<noteq> CHR ''='') name_value)
             in if name_value \<noteq> [] \<and> val \<noteq> [] then [(unquote_plus name, unquote_plus val)]
                else [])
           (split_on CHR ''&'' qs)))"

text \<open>\<^verbatim>\<open>parse_qs\<close> collects the values of each name, in order.\<close>

definition parse_qs_add ::
    "(string \<times> string list) list \<Rightarrow> string \<times> string \<Rightarrow> (string \<times> string list) list" where
  "parse_qs_add parsed_result nv =
     (case map_of parsed_result (fst nv) of
        Some vs \<Rightarrow> AList.update (fst nv) (vs @ [snd nv]) parsed_result
      | None \<Rightarrow> parsed_result @ [(fst nv, [snd nv])])"

definition parse_qs :: "string \<Rightarrow> (string \<times> string list) list" where
  "parse_qs qs = foldl parse_qs_add [] (parse_qsl qs)"

definition extract_code_from_url :: "string \<Rightarrow> exn + string" where
  "extract_code_from_url redirect_url =
     (case urlparse_query redirect_url of
        Inl e \<Rightarrow> Inl e
      | Inr query \<Rightarrow>
          (let query_params = parse_qs query
           in case map_of query_params ''code'' of
                None \<Rightarrow>
                  (case map_of query_params ''error'' of
                     Some [] \<Rightarrow> Inl IndexError
                   | Some (error # _) \<Rightarrow> Inl (ValueError (''Authorization failed: '' @ error))
                   | None \<Rightarrow> Inl (ValueError ''No authorization code found in redirect URL''))
              | Some [] \<Rightarrow> Inl IndexError
              | Some (code # _) \<Rightarrow> Inr code))"

text \<open>The values that a query string gives for the parameter \<open>k\<close>, in order: what it
  means for a parameter to be present in the redirect.\<close>

definition query_values :: "string \<Rightarrow> string \<Rightarrow> string list" where
  "query_values k qs = map snd (filter (\<lambda>nv. fst nv = k) (parse_qsl qs))"

section \<open>api\_client.py\<close>

subsection \<open>The spotipy client\<close>

text \<open>
  A spotipy client is known by the access token it was built with. Each of its calls sends
  one request, which the world records and answers. Console output is not modelled.
\<close>

definition api_call_page :: "json \<Rightarrow> api_request \<Rightarrow> world \<Rightarrow> (exn + page) \<times> world" where
  "api_call_page client rq w =
     (let w1 = log_event (Requested client rq) w in (pages_api w1 (trace w1), w1))"

definition current_user_top_tracks ::
    "json \<Rightarrow> string \<Rightarrow> int \<Rightarrow> world \<Rightarrow> (exn + page) \<times> world" where
  "current_user_top_tracks client time_range limit w =
     api_call_page client (TopTracks time_range limit) w"

text \<open>\<^verbatim>\<open>client.next(results)\<close> fetches the page that \<^verbatim>\<open>results["next"]\<close> points to. With
  a pointer that is not true it returns \<^verbatim>\<open>None\<close>, on which the caller's
  \<^verbatim>\<open>results.get\<close> raises \<^verbatim>\<open>AttributeError\<close>.\<close>

definition client_next :: "json \<Rightarrow> page \<Rightarrow> world \<Rightarrow> (exn + page) \<times> world" where
  "client_next client results w =
     (if truthy (next_url results) then api_call_page client (NextPage (next_url results)) w
      else (Inl AttributeError, w))"

definition audio_features :: "json \<Rightarrow> string list \<Rightarrow> world \<Rightarrow> (exn + json list) \<times> world" where
  "audio_features client tracks w =
     (let w1 = log_event (Requested client (AudioFeatures tracks)) w
      in (features_api w1 (trace w1), w1))"

subsection \<open>SpotifyAPIClient.\_get\_client\<close>

text \<open>The object's two attributes; \<open>spotipy_client\<close> is \<open>None\<close> until a client is built.\<close>

record api_client =
  access_token :: json
  spotipy_client :: "json option"

definition SpotifyAPIClient :: api_client where
  "SpotifyAPIClient = \<lparr>access_token = JNull, spotipy_client = None\<rparr>"

text \<open>
  The condition calls \<^verbatim>\<open>get_valid_token\<close> only when a client exists; the body calls it
  again, and the token is stored before the credentials are read.
\<close>

definition build_client :: "api_client \<Rightarrow> world \<Rightarrow> (exn + json) \<times> api_client \<times> world" where
  "build_client self w =
     (case get_valid_token w of
        (Inl e, w1) \<Rightarrow> (Inl e, self, w1)
      | (Inr tok, w1) \<Rightarrow>
          (let self1 = self\<lparr>access_token := tok\<rparr>
           in case get_client_credentials w1 of
                Inl e \<Rightarrow> (Inl e, self1, w1)
              | Inr _ \<Rightarrow> (Inr tok, self1\<lparr>spotipy_client := Some tok\<rparr>, w1)))"

definition get_client :: "api_client \<Rightarrow> world \<Rightarrow> (exn + json) \<times> api_client \<times> world" where
  "get_client self w =
     (case spotipy_client self of
        None \<Rightarrow> build_client self w
      | Some c \<Rightarrow>
          (case get_valid_token w of
             (Inl e, w1) \<Rightarrow> (Inl e, self, w1)
           | (Inr tok, w1) \<Rightarrow>
               if access_token self \<noteq> tok then build_client self w1
               else (Inr c, self, w1)))"

subsection \<open>SpotifyAPIClient.\_retry\_request\<close>

definition to_lower :: "char \<Rightarrow> char" where
  "to_lower c =
     (if 65 \<le> (of_char c :: nat) \<and> (of_char c :: nat) \<le> 90
      then char_of ((of_char c :: nat) + 32) else c)"

text \<open>The headers of a response compare their names without regard to case.\<close>

definition header_get :: "(string \<times> string) list \<Rightarrow> string \<Rightarrow> string option" where
  "header_get hs k = map_of (map (\<lambda>(n, v). (map to_lower n, v)) hs) (map to_lower k)"

definition is_space :: "char \<Rightarrow> bool" where
  "is_space c =
     ((9 \<le> (of_char c :: nat) \<and> (of_char c :: nat) \<le> 13)
      \<or> (28 \<le> (of_char c :: nat) \<and> (of_char c :: nat) \<le> 32))"

definition nat_of_digits :: "string \<Rightarrow> nat" where
  "nat_of_digits ds = foldl (\<lambda>a c. 10 * a + (of_char c - 48)) 0 ds"

text \<open>\<^verbatim>\<open>int(s)\<close> on a string of ASCII characters: surrounding white space, a sign, and
  decimal digits, with single underscores allowed between digits.\<close>

definition int_of_str :: "string \<Rightarrow> exn + int" where
  "int_of_str s =
     (let t = rev (dropWhile is_space (rev (dropWhile is_space s)));
          negative = (take 1 t = ''-'');
          digs = (if take 1 t = ''-'' \<or> take 1 t = ''+'' then drop 1 t else t);
          groups = split_on CHR ''_'' digs
      in if list_all (\<lambda>g. g \<noteq> [] \<and> list_all is_digit g) groups
         then Inr ((if negative then - 1 else 1) * int (nat_of_digits (concat groups)))
         else Inl (ValueError ''invalid literal for int() with base 10''))"

text \<open>\<^verbatim>\<open>int(x)\<close> on a float rounds towards zero.\<close>

definition int_of_float :: "real \<Rightarrow> int" where
  "int_of_float x = (if 0 \<le> x then \<lfloor>x\<rfloor> else \<lceil>x\<rceil>)"

text \<open>\<^verbatim>\<open>int(e.headers.get("Retry-After", delay))\<close>.\<close>

definition retry_after_of :: "(string \<times> string) list option \<Rightarrow> real \<Rightarrow> exn + int" where
  "retry_after_of hs delay =
     (case hs of
        None \<Rightarrow> Inl AttributeError
      | Some h \<Rightarrow>
          (case header_get h ''Retry-After'' of
             None \<Rightarrow> Inr (int_of_float delay)
           | Some s \<Rightarrow> int_of_str s))"

text \<open>
  The loop \<^verbatim>\<open>for attempt in range(max_retries)\<close>, from \<open>attempt\<close> on. The request
  function acts on the world and may not return, which is the result \<open>None\<close>. An
  exception raised inside a handler (by \<^verbatim>\<open>int\<close> or \<^verbatim>\<open>time.sleep\<close>) leaves the loop.
\<close>

function retry_loop ::
    "(world \<Rightarrow> ((exn + 'a) \<times> world) option) \<Rightarrow> int \<Rightarrow> real \<Rightarrow> int \<Rightarrow> world
       \<Rightarrow> ((exn + 'a) \<times> world) option" where
  "retry_loop func max_retries delay attempt w =
     (if attempt < max_retries then
        (case func w of
           None \<Rightarrow> None
         | Some (Inr r, w1) \<Rightarrow> Some (Inr r, w1)
         | Some (Inl e, w1) \<Rightarrow>
             (case e of
                SpotifyException http_status hs \<Rightarrow>
                  if http_status = 429 then
                    (case retry_after_of hs delay of
                       Inl e' \<Rightarrow> Some (Inl e', w1)
                     | Inr retry_after \<Rightarrow>
                         if attempt < max_retries - 1 then
                           (case time_sleep (real_of_int retry_after) w1 of
                              (Inl e', w2) \<Rightarrow> Some (Inl e', w2)
                            | (Inr _, w2) \<Rightarrow>
                                retry_loop func max_retries delay (attempt + 1) w2)
                         else Some (Inl e, w1))
                  else if http_status \<ge> 500 then
                    (if attempt < max_retries - 1 then
                       (case time_sleep (delay * 2 ^ nat attempt) w1 of
                          (Inl e', w2) \<Rightarrow> Some (Inl e', w2)
                        | (Inr _, w2) \<Rightarrow>
                            retry_loop func max_retries delay (attempt + 1) w2)
                     else Some (Inl e, w1))
                  else Some (Inl e, w1)
              | _ \<Rightarrow>
                  if attempt < max_retries - 1 then
                    (case time_sleep (delay * 2 ^ nat attempt) w1 of
                       (Inl e', w2) \<Rightarrow> Some (Inl e', w2)
                     | (Inr _, w2) \<Rightarrow>
                         retry_loop func max_retries delay (attempt + 1) w2)
                  else Some (Inl e, w1)))
      else Some (Inl (Exception ''Max retries exceeded''), w))"
  by pat_completeness auto
termination
  by (relation "measure (\<lambda>(func, max_retries, delay, attempt, w). nat (max_retries - attempt))")
     auto

declare retry_loop.simps [simp del]

definition retry_request ::
    "(world \<Rightarrow> ((exn + 'a) \<times> world) option) \<Rightarrow> int \<Rightarrow> real \<Rightarrow> world
       \<Rightarrow> ((exn + 'a) \<times> world) option" where
  "retry_request func max_retries delay w = retry_loop func max_retries delay 0 w"

subsection \<open>SpotifyAPIClient.get\_top\_tracks\<close>

text \<open>\<^verbatim>\<open>results.get("items", [])\<close>.\<close>

definition page_items :: "page \<Rightarrow> json list" where
  "page_items results = (case items results of None \<Rightarrow> [] | Some xs \<Rightarrow> xs)"

text \<open>The loop \<^verbatim>\<open>while results.get("next")\<close>, which ends only when a page has no
  continuation pointer or a request fails.\<close>

partial_function (option) drain_pages ::
    "json \<Rightarrow> page \<Rightarrow> json list \<Rightarrow> world \<Rightarrow> ((exn + json list) \<times> world) option" where
  "drain_pages client results tracks w =
     (if truthy (next_url results) then
        (case client_next client results w of
           (Inl e, w1) \<Rightarrow> Some (Inl e, w1)
         | (Inr results', w1) \<Rightarrow>
             drain_pages client results' (tracks @ page_items results') w1)
      else Some (Inr tracks, w))"

definition fetch_top_tracks ::
    "json \<Rightarrow> string \<Rightarrow> int \<Rightarrow> world \<Rightarrow> ((exn + json list) \<times> world) option" where
  "fetch_top_tracks client time_range limit w =
     (case current_user_top_tracks client time_range limit w of
        (Inl e, w1) \<Rightarrow> Some (Inl e, w1)
      | (Inr results, w1) \<Rightarrow> drain_pages client results (page_items results) w1)"

definition get_top_tracks ::
    "api_client \<Rightarrow> string \<Rightarrow> int \<Rightarrow> world
       \<Rightarrow> ((exn + json list) \<times> api_client \<times> world) option" where
  "get_top_tracks self time_range limit w =
     (case get_client self w of
        (Inl e, self1, w1) \<Rightarrow> Some (Inl e, self1, w1)
      | (Inr client, self1, w1) \<Rightarrow>
          (case retry_request (fetch_top_tracks client time_range limit) 3 1 w1 of
             None \<Rightarrow> None
           | Some (r, w2) \<Rightarrow> Some (r, self1, w2)))"

subsection \<open>SpotifyAPIClient.get\_audio\_features\_for\_tracks\<close>

text \<open>The fallback loop over the ids of a failed batch. Its bare \<^verbatim>\<open>except\<close> drops
  whatever the pause or the request raises.\<close>

fun individual_requests ::
    "json \<Rightarrow> string list \<Rightarrow> json list \<Rightarrow> world \<Rightarrow> json list \<times> world" where
  "individual_requests client [] individual_features w = (individual_features, w)"
| "individual_requests client (track_id # batch) individual_features w =
     (case time_sleep (1 / 10) w of
        (Inl _, w1) \<Rightarrow> individual_requests client batch individual_features w1
      | (Inr _, w1) \<Rightarrow>
          (case audio_features client [track_id] w1 of
             (Inl _, w2) \<Rightarrow> individual_requests client batch individual_features w2
           | (Inr feat, w2) \<Rightarrow>
               (case feat of
                  [] \<Rightarrow> individual_requests client batch individual_features w2
                | f # _ \<Rightarrow>
                    if truthy f
                    then individual_requests client batch (individual_features @ [f]) w2
                    else individual_requests client batch individual_features w2)))"

definition fetch_batch ::
    "json \<Rightarrow> string list \<Rightarrow> world \<Rightarrow> ((exn + json list) \<times> world) option" where
  "fetch_batch client batch w =
     (case audio_features client batch w of
        (Inr features, w1) \<Rightarrow> Some (Inr features, w1)
      | (Inl _, w1) \<Rightarrow>
          (case individual_requests client batch [] w1 of
             (individual_features, w2) \<Rightarrow> Some (Inr individual_features, w2)))"

text \<open>The loop \<^verbatim>\<open>for i in range(0, len(track_ids), 20)\<close>, from index \<open>i\<close> on.\<close>

function batches_loop ::
    "json \<Rightarrow> string list \<Rightarrow> nat \<Rightarrow> json list \<Rightarrow> world
       \<Rightarrow> ((exn + json list) \<times> world) option" where
  "batches_loop client track_ids i all_features w =
     (if i < length track_ids then
        (let batch = take 20 (drop i track_ids)
         in case retry_request (fetch_batch client batch) 3 1 w of
              None \<Rightarrow> None
            | Some (Inl e, w1) \<Rightarrow> Some (Inl e, w1)
            | Some (Inr features, w1) \<Rightarrow>
                (let all_features1 = all_features @ filter (\<lambda>f. f \<noteq> JNull) features
                 in if i + 20 < length track_ids then
                      (case time_sleep (2 / 10) w1 of
                         (Inl e, w2) \<Rightarrow> Some (Inl e, w2)
                       | (Inr _, w2) \<Rightarrow>
                           batches_loop client track_ids (i + 20) all_features1 w2)
                    else batches_loop client track_ids (i + 20) all_features1 w1))
      else Some (Inr all_features, w))"
  by pat_completeness auto
termination
  by (relation "measure (\<lambda>(client, track_ids, i, all_features, w). length track_ids - i)")
     auto

declare batches_loop.simps [simp del]

definition get_audio_features_for_tracks ::
    "api_client \<Rightarrow> string list \<Rightarrow> world
       \<Rightarrow> ((exn + json list) \<times> api_client \<times> world) option" where
  "get_audio_features_for_tracks self track_ids w =
     (case get_client self w of
        (Inl e, self1, w1) \<Rightarrow> Some (Inl e, self1, w1)
      | (Inr client, self1, w1) \<Rightarrow>
          (case batches_loop client track_ids 0 [] w1 of
             None \<Rightarrow> None
           | Some (r, w2) \<Rightarrow> Some (r, self1, w2)))"

section \<open>Response sequences\<close>

text \<open>
  \<open>served_pages client w p ps\<close>: in world \<open>w\<close>, after the page \<open>p\<close>, the Web API answers
  the successive continuation requests of \<open>client\<close> with the pages \<open>ps\<close>. Every page but
  the last carries a continuation pointer, and the last one carries none.
\<close>

fun served_pages :: "json \<Rightarrow> world \<Rightarrow> page \<Rightarrow> page list \<Rightarrow> bool" where
  "served_pages client w p [] = (\<not> truthy (next_url p))"
| "served_pages client w p (q # qs) =
     (truthy (next_url p)
      \<and> pages_api w (trace w @ [Requested client (NextPage (next_url p))]) = Inr q
      \<and> served_pages client (log_event (Requested client (NextPage (next_url p))) w) q qs)"

text \<open>The continuation requests that fetch the pages after the first one.\<close>

definition continuation_requests :: "json \<Rightarrow> page list \<Rightarrow> event list" where
  "continuation_requests client ps =
     map (\<lambda>q. Requested client (NextPage (next_url q))) (butlast ps)"

section \<open>The batch fetch as specified\<close>

text \<open>
  The outcome of the audio-feature fetch in the words of the specification, for a Web API
  whose answer to an audio-features request is \<open>F ids\<close>. A track id succeeds individually
  when its own request returns a feature that is true. A batch gives the features that
  are not \<^verbatim>\<open>None\<close> when its request succeeds, and the features of the ids that succeed
  individually when it fails.
\<close>

definition individual_result :: "(string list \<Rightarrow> exn + json list) \<Rightarrow> string \<Rightarrow> json list" where
  "individual_result F track_id =
     (case F [track_id] of
        Inr (f # _) \<Rightarrow> if truthy f then [f] else []
      | _ \<Rightarrow> [])"

definition batch_result :: "(string list \<Rightarrow> exn + json list) \<Rightarrow> string list \<Rightarrow> json list" where
  "batch_result F batch =
     (case F batch of
        Inr features \<Rightarrow> filter (\<lambda>f. f \<noteq> JNull) features
      | Inl _ \<Rightarrow> concat (map (individual_result F) batch))"

text \<open>What the fetch of one batch does: the batch request and, when it fails, a pause and
  a request for each id of the batch.\<close>

definition batch_events ::
    "json \<Rightarrow> (string list \<Rightarrow> exn + json list) \<Rightarrow> string list \<Rightarrow> event list" where
  "batch_events client F batch =
     Requested client (AudioFeatures batch) #
       (case F batch of
          Inr _ \<Rightarrow> []
        | Inl _ \<Rightarrow>
            concat (map (\<lambda>track_id. [Slept (1 / 10), Requested client (AudioFeatures [track_id])])
                     batch))"

section \<open>Example worlds\<close>

text \<open>
  A stored record that expired at time 1000, a clock that reads 2000, credentials in the
  environment, and a token endpoint that answers every request with a new access token and
  no refresh token. The Web API of this world answers nothing.
\<close>

definition stored_record :: dict where
  "stored_record =
     [(''access_token'', JStr ''old''), (''refresh_token'', JStr ''r1''),
      (''expires_at'', JNum 1000)]"

definition provider_response :: dict where
  "provider_response = [(''access_token'', JStr ''new''), (''expires_in'', JNum 3600)]"

definition example_world :: world where
  "example_world =
     \<lparr>nodes = [''data'' \<mapsto> Dir, ''data/token.json'' \<mapsto> File (JsonText (JObj stored_record))],
      environ = [''SPOTIFY_CLIENT_ID'' \<mapsto> ''id'', ''SPOTIFY_CLIENT_SECRET'' \<mapsto> ''secret''],
      trace = [],
      clock = (\<lambda>_. 2000),
      token_endpoint =
        (\<lambda>_. Responded \<lparr>status_code = 200, reason = ''OK'',
                          body = JsonBody (JObj provider_response)\<rparr>),
      pages_api = (\<lambda>_. Inl (Exception ''no answer'')),
      features_api = (\<lambda>_. Inl (Exception ''no answer''))\<rparr>"

text \<open>The same world with a token file whose bytes are not text.\<close>

definition corrupt_world :: world where
  "corrupt_world =
     example_world\<lparr>nodes := [''data'' \<mapsto> Dir, ''data/token.json'' \<mapsto> File Undecodable]\<rparr>"

text \<open>A request function that records one request and fails with status 503, whatever
  the world.\<close>

definition failing_request :: "world \<Rightarrow> ((exn + json list) \<times> world) option" where
  "failing_request w =
     Some (Inl (SpotifyException 503 (Some [])),
           log_event (Requested (JStr ''new'') (AudioFeatures [''t1''])) w)"

text \<open>A world with a valid stored token whose Web API serves top tracks in three pages.\<close>

definition page1 :: page where
  "page1 = \<lparr>items = Some [JStr ''a'', JStr ''b''], next_url = JStr ''page2''\<rparr>"

definition page2 :: page where
  "page2 = \<lparr>items = Some [JStr ''c''], next_url = JStr ''page3''\<rparr>"

definition page3 :: page where
  "page3 = \<lparr>items = Some [JStr ''d''], next_url = JNull\<rparr>"

definition paged_api :: "event list \<Rightarrow> exn + page" where
  "paged_api tr =
     (case last tr of
        Requested _ (TopTracks _ _) \<Rightarrow> Inr page1
      | Requested _ (NextPage u) \<Rightarrow>
          if u = JStr ''page2'' then Inr page2
          else if u = JStr ''page3'' then Inr page3
          else Inl (SpotifyException 404 (Some []))
      | _ \<Rightarrow> Inl (Exception ''no answer''))"

definition paged_world :: world where
  "paged_world = example_world\<lparr>clock := (\<lambda>_. 900), pages_api := paged_api\<rparr>"

text \<open>
  A world with a valid stored token and 45 track ids. The Web API fails the batch that
  holds \<open>t20\<close>, which is the second one, fails the request for \<open>t21\<close> alone, and
  answers every other audio-features request with one feature for each id.
\<close>

definition example_ids :: "string list" where
  "example_ids = map (\<lambda>n. CHR ''t'' # str_of_nat n) [0..<45]"

definition feature_of :: "string \<Rightarrow> json" where
  "feature_of track_id = JObj [(''id'', JStr track_id)]"

definition feature_server :: "string list \<Rightarrow> exn + json list" where
  "feature_server ids =
     (if ''t20'' \<in> set ids \<and> 1 < length ids then Inl (SpotifyException 500 (Some []))
      else if ids = [''t21''] then Inl (SpotifyException 404 (Some []))
      else Inr (map feature_of ids))"

definition batch_api :: "event list \<Rightarrow> exn + json list" where
  "batch_api tr =
     (case last tr of
        Requested _ (AudioFeatures ids) \<Rightarrow> feature_server ids
      | _ \<Rightarrow> Inl (Exception ''no answer''))"

definition batch_world :: world where
  "batch_world = example_world\<lparr>clock := (\<lambda>_. 900), features_api := batch_api\<rparr>"

section \<open>Properties of the token store and the validity gate\<close>

lemmas world_simps = example_world_def stored_record_def provider_response_def
  TOKEN_FILE_def time_time_def dict_get_def dict_set_def

lemma dict_get_set: "dict_get (dict_set d k v) k' = (if k' = k then Some v else dict_get d k')"
  by (simp add: dict_get_def dict_set_def update_conv')

lemma load_tokens_stored:
  "nodes w p = Some (File (JsonText v)) \<Longrightarrow> load_tokens p w = Inr v"
  by (simp add: load_tokens_def os_path_exists_def read_json_def)

lemma load_tokens_missing:
  "nodes w p = None \<Longrightarrow> load_tokens p w = Inr JNull"
  by (simp add: load_tokens_def os_path_exists_def)

lemma load_tokens_malformed:
  "nodes w p = Some (File Malformed) \<Longrightarrow> load_tokens p w = Inr JNull"
  by (simp add: load_tokens_def os_path_exists_def read_json_def)

lemma load_tokens_directory:
  "nodes w p = Some Dir \<Longrightarrow> load_tokens p w = Inr JNull"
  by (simp add: load_tokens_def os_path_exists_def read_json_def)

lemma refresh_access_token_nodes:
  "refresh_access_token rt w = (r, w1) \<Longrightarrow> nodes w1 = nodes w"
  by (auto simp: refresh_access_token_def requests_post_def log_event_def Let_def
        split: sum.splits prod.splits post_outcome.splits)

lemma save_tokens_token_file:
  "nodes w ''data'' = Some Dir \<Longrightarrow> nodes w TOKEN_FILE \<noteq> Some Dir \<Longrightarrow>
   save_tokens d TOKEN_FILE w =
     (Inr (), w\<lparr>nodes := (nodes w)(TOKEN_FILE \<mapsto> File (JsonText (JObj d)))\<rparr>)"
  by (auto simp: save_tokens_def os_makedirs_def write_json_def os_path_dirname_def TOKEN_FILE_def
        split: option.splits node.splits)

lemma example_refresh:
  "refresh_access_token (JStr ''r1'') example_world =
     (Inr [(''access_token'', JStr ''new''), (''expires_in'', JNum 3600),
           (''refresh_token'', JStr ''r1''), (''expires_at'', JNum 5600)],
      log_event (Posted (refresh_request ''id'' ''secret'' (JStr ''r1''))) example_world)"
  by (simp add: refresh_access_token_def get_client_credentials_def os_getenv_def
    requests_post_def log_event_def raise_for_status_def response_json_def
    update_token_data_def world_simps Let_def)

text \<open>
  C2. For a token record whose \<^verbatim>\<open>expires_at\<close> is the number \<open>expires_at\<close> and a current
  time \<open>t\<close>, \<open>is_token_expired\<close> returns true exactly when \<open>expires_at \<le> t + 60\<close> and
  false exactly when \<open>expires_at > t + 60\<close>; a token exactly 60 seconds before its expiry
  counts as expired.
\<close>

theorem is_token_expired_margin:
  assumes "dict_get token_data ''expires_at'' = Some v" and "num_of v = Some expires_at"
  shows "is_token_expired token_data t = Inr (expires_at \<le> t + 60)"
  using assms by (auto simp: is_token_expired_def)

theorem is_token_expired_margin_witness:
  "dict_get [(''expires_at'', JNum 1060)] ''expires_at'' = Some (JNum 1060)
   \<and> num_of (JNum 1060) = Some 1060
   \<and> is_token_expired [(''expires_at'', JNum 1060)] 1000 = Inr True
   \<and> is_token_expired [(''expires_at'', JNum 1061)] 1000 = Inr False"
  using is_token_expired_margin[of "[(''expires_at'', JNum 1060)]" "JNum 1060" 1060 1000]
    is_token_expired_margin[of "[(''expires_at'', JNum 1061)]" "JNum 1061" 1061 1000]
  by (simp add: dict_get_def)

text \<open>
  C5. When the credentials are set and the token endpoint answers the refresh request with
  a success status and a JSON object \<open>d\<close>, \<open>refresh_access_token\<close> returns a record whose
  refresh token is the one in \<open>d\<close> when \<open>d\<close> has one and the caller's refresh token \<open>rt\<close>
  when \<open>d\<close> has none, and whose \<^verbatim>\<open>expires_at\<close> is the clock's reading after the answer
  plus \<^verbatim>\<open>expires_in\<close> (3600 when the response has no \<^verbatim>\<open>expires_in\<close>).
\<close>

theorem refresh_access_token_record:
  assumes "get_client_credentials w = Inr (cid, secret, uri)"
    and "token_endpoint w (trace w @ [Posted (refresh_request cid secret rt)]) = Responded r"
    and "status_code r < 400 \<or> 600 \<le> status_code r"
    and "body r = JsonBody (JObj d)"
    and "num_of (case dict_get d ''expires_in'' of None \<Rightarrow> JNum 3600 | Some v \<Rightarrow> v) = Some x"
  shows "\<exists>d' w1. refresh_access_token rt w = (Inr d', w1)
      \<and> w1 = log_event (Posted (refresh_request cid secret rt)) w
      \<and> dict_get d' ''refresh_token'' =
          (case dict_get d ''refresh_token'' of None \<Rightarrow> Some rt | Some v \<Rightarrow> Some v)
      \<and> dict_get d' ''expires_at'' = Some (JNum (time_time w1 + x))"
  using assms
  by (auto simp: refresh_access_token_def requests_post_def log_event_def
        raise_for_status_def response_json_def update_token_data_def dict_get_set Let_def
        split: option.splits)

theorem refresh_access_token_record_witness:
  "(\<exists>d' w1. refresh_access_token (JStr ''r1'') example_world = (Inr d', w1)
      \<and> dict_get d' ''refresh_token'' = Some (JStr ''r1'')
      \<and> dict_get d' ''expires_at'' = Some (JNum 5600))
   \<and> (\<exists>d' w1. refresh_access_token (JStr ''r1'')
          (example_world\<lparr>token_endpoint := (\<lambda>_. Responded \<lparr>status_code = 200, reason = ''OK'',
              body = JsonBody (JObj [(''access_token'', JStr ''new''),
                                     (''refresh_token'', JStr ''r2'')])\<rparr>)\<rparr>) = (Inr d', w1)
      \<and> dict_get d' ''refresh_token'' = Some (JStr ''r2'')
      \<and> dict_get d' ''expires_at'' = Some (JNum 5600))"
proof -
  let ?r2 = "\<lparr>status_code = 200, reason = ''OK'',
              body = JsonBody (JObj [(''access_token'', JStr ''new''),
                                     (''refresh_token'', JStr ''r2'')])\<rparr>"
  let ?w2 = "example_world\<lparr>token_endpoint := (\<lambda>_. Responded ?r2)\<rparr>"
  have a: "\<exists>d' w1. refresh_access_token (JStr ''r1'') example_world = (Inr d', w1)
      \<and> w1 = log_event (Posted (refresh_request ''id'' ''secret'' (JStr ''r1''))) example_world
      \<and> dict_get d' ''refresh_token'' =
          (case dict_get provider_response ''refresh_token'' of
             None \<Rightarrow> Some (JStr ''r1'') | Some v \<Rightarrow> Some v)
      \<and> dict_get d' ''expires_at'' = Some (JNum (time_time w1 + 3600))"
    by (rule refresh_access_token_record[where uri = "''http://localhost:8888/callback''"
          and r = "\<lparr>status_code = 200, reason = ''OK'', body = JsonBody (JObj provider_response)\<rparr>"])
       (simp_all add: world_simps get_client_credentials_def os_getenv_def)
  have b: "\<exists>d' w1. refresh_access_token (JStr ''r1'') ?w2 = (Inr d', w1)
      \<and> w1 = log_event (Posted (refresh_request ''id'' ''secret'' (JStr ''r1''))) ?w2
      \<and> dict_get d' ''refresh_token'' =
          (case dict_get [(''access_token'', JStr ''new''), (''refresh_token'', JStr ''r2'')]
                  ''refresh_token'' of
             None \<Rightarrow> Some (JStr ''r1'') | Some v \<Rightarrow> Some v)
      \<and> dict_get d' ''expires_at'' = Some (JNum (time_time w1 + 3600))"
    by (rule refresh_access_token_record[where uri = "''http://localhost:8888/callback''"
          and r = ?r2])
       (simp_all add: world_simps get_client_credentials_def os_getenv_def)
  from a b show ?thesis
    by (auto simp: world_simps log_event_def)
qed

text \<open>
  C1. \<open>get_valid_token\<close> is the validity gate of the token store. When the token file is
  absent it fails with the error that no tokens were found. When the stored record is
  expired and has no refresh token it fails with the error that no refresh token is
  available. When the stored record is expired, has the refresh token \<open>rt\<close>, and the
  refresh of \<open>rt\<close> returns the record \<open>d'\<close>, it writes \<open>d'\<close> to the token file and returns
  the access token of \<open>d'\<close>. When the stored record is not expired it returns the stored
  access token and leaves the world as it was.
\<close>

theorem get_valid_token_gate:
  "(nodes w TOKEN_FILE = None \<longrightarrow>
      get_valid_token w =
        (Inl (ValueError ''No tokens found. Please run authenticate() first to obtain tokens.''), w))
   \<and> (nodes w TOKEN_FILE = Some (File (JsonText (JObj d))) \<and> d \<noteq> []
        \<and> is_token_expired d (time_time w) = Inr True
        \<and> dict_get d ''refresh_token'' = None \<longrightarrow>
      get_valid_token w =
        (Inl (ValueError ''Token expired and no refresh token available.''), w))
   \<and> (nodes w TOKEN_FILE = Some (File (JsonText (JObj d))) \<and> nodes w ''data'' = Some Dir
        \<and> is_token_expired d (time_time w) = Inr True
        \<and> dict_get d ''refresh_token'' = Some rt
        \<and> refresh_access_token rt w = (Inr d', w1)
        \<and> dict_get d' ''access_token'' = Some tok \<longrightarrow>
      get_valid_token w =
        (Inr tok, w1\<lparr>nodes := (nodes w1)(TOKEN_FILE \<mapsto> File (JsonText (JObj d')))\<rparr>))
   \<and> (nodes w TOKEN_FILE = Some (File (JsonText (JObj d)))
        \<and> is_token_expired d (time_time w) = Inr False
        \<and> dict_get d ''access_token'' = Some tok \<longrightarrow>
      get_valid_token w = (Inr tok, w))"
proof (intro conjI impI)
  assume "nodes w TOKEN_FILE = None"
  then show "get_valid_token w =
        (Inl (ValueError ''No tokens found. Please run authenticate() first to obtain tokens.''), w)"
    by (simp add: get_valid_token_def load_tokens_missing)
next
  assume a: "nodes w TOKEN_FILE = Some (File (JsonText (JObj d))) \<and> d \<noteq> []
        \<and> is_token_expired d (time_time w) = Inr True
        \<and> dict_get d ''refresh_token'' = None"
  then show "get_valid_token w =
        (Inl (ValueError ''Token expired and no refresh token available.''), w)"
    by (simp add: get_valid_token_def load_tokens_stored)
next
  assume a: "nodes w TOKEN_FILE = Some (File (JsonText (JObj d))) \<and> nodes w ''data'' = Some Dir
        \<and> is_token_expired d (time_time w) = Inr True
        \<and> dict_get d ''refresh_token'' = Some rt
        \<and> refresh_access_token rt w = (Inr d', w1)
        \<and> dict_get d' ''access_token'' = Some tok"
  then have n: "nodes w1 = nodes w" by (auto dest: refresh_access_token_nodes)
  from a have ne: "d \<noteq> []" by (auto simp: dict_get_def)
  have s: "save_tokens d' TOKEN_FILE w1
      = (Inr (), w1\<lparr>nodes := (nodes w1)(TOKEN_FILE \<mapsto> File (JsonText (JObj d')))\<rparr>)"
    using a n by (intro save_tokens_token_file) auto
  show "get_valid_token w =
        (Inr tok, w1\<lparr>nodes := (nodes w1)(TOKEN_FILE \<mapsto> File (JsonText (JObj d')))\<rparr>)"
    using a ne s by (simp add: get_valid_token_def load_tokens_stored dict_item_def)
next
  assume a: "nodes w TOKEN_FILE = Some (File (JsonText (JObj d)))
        \<and> is_token_expired d (time_time w) = Inr False
        \<and> dict_get d ''access_token'' = Some tok"
  then have ne: "d \<noteq> []" by (auto simp: dict_get_def)
  show "get_valid_token w = (Inr tok, w)"
    using a ne by (simp add: get_valid_token_def load_tokens_stored dict_item_def)
qed

theorem get_valid_token_gate_witness:
  "get_valid_token (example_world\<lparr>nodes := Map.empty\<rparr>) =
     (Inl (ValueError ''No tokens found. Please run authenticate() first to obtain tokens.''),
      example_world\<lparr>nodes := Map.empty\<rparr>)
   \<and> get_valid_token (example_world\<lparr>nodes := [''data/token.json'' \<mapsto>
          File (JsonText (JObj [(''access_token'', JStr ''old''), (''expires_at'', JNum 1000)]))]\<rparr>) =
     (Inl (ValueError ''Token expired and no refresh token available.''),
      example_world\<lparr>nodes := [''data/token.json'' \<mapsto>
          File (JsonText (JObj [(''access_token'', JStr ''old''), (''expires_at'', JNum 1000)]))]\<rparr>)
   \<and> fst (get_valid_token example_world) = Inr (JStr ''new'')
   \<and> nodes (snd (get_valid_token example_world)) ''data/token.json'' =
       Some (File (JsonText (JObj [(''access_token'', JStr ''new''), (''expires_in'', JNum 3600),
           (''refresh_token'', JStr ''r1''), (''expires_at'', JNum 5600)])))
   \<and> get_valid_token (example_world\<lparr>clock := (\<lambda>_. 900)\<rparr>) =
       (Inr (JStr ''old''), example_world\<lparr>clock := (\<lambda>_. 900)\<rparr>)"
proof -
  let ?w1 = "example_world\<lparr>nodes := Map.empty\<rparr>"
  let ?d2 = "[(''access_token'', JStr ''old''), (''expires_at'', JNum 1000)]"
  let ?w2 = "example_world\<lparr>nodes := [''data/token.json'' \<mapsto> File (JsonText (JObj ?d2))]\<rparr>"
  let ?w4 = "example_world\<lparr>clock := (\<lambda>_. 900)\<rparr>"
  let ?d' = "[(''access_token'', JStr ''new''), (''expires_in'', JNum 3600),
           (''refresh_token'', JStr ''r1''), (''expires_at'', JNum 5600)]"
  let ?w' = "log_event (Posted (refresh_request ''id'' ''secret'' (JStr ''r1''))) example_world"
  have 1: "nodes ?w1 TOKEN_FILE = None" by (simp add: world_simps)
  have 2: "nodes ?w2 TOKEN_FILE = Some (File (JsonText (JObj ?d2))) \<and> ?d2 \<noteq> []
        \<and> is_token_expired ?d2 (time_time ?w2) = Inr True
        \<and> dict_get ?d2 ''refresh_token'' = None"
    by (simp add: world_simps is_token_expired_def)
  have 3: "nodes example_world TOKEN_FILE = Some (File (JsonText (JObj stored_record)))
        \<and> nodes example_world ''data'' = Some Dir
        \<and> is_token_expired stored_record (time_time example_world) = Inr True
        \<and> dict_get stored_record ''refresh_token'' = Some (JStr ''r1'')"
    by (simp add: world_simps is_token_expired_def)
  have 4: "nodes ?w4 TOKEN_FILE = Some (File (JsonText (JObj stored_record)))
        \<and> is_token_expired stored_record (time_time ?w4) = Inr False
        \<and> dict_get stored_record ''access_token'' = Some (JStr ''old'')"
    by (simp add: world_simps is_token_expired_def)
  have c1: "get_valid_token ?w1 =
     (Inl (ValueError ''No tokens found. Please run authenticate() first to obtain tokens.''), ?w1)"
    using 1 get_valid_token_gate[where w = ?w1] by blast
  have c2: "get_valid_token ?w2 =
     (Inl (ValueError ''Token expired and no refresh token available.''), ?w2)"
    using 2 get_valid_token_gate[where w = ?w2 and d = ?d2] by blast
  have "dict_get ?d' ''access_token'' = Some (JStr ''new'')" by (simp add: dict_get_def)
  then have c3: "get_valid_token example_world =
      (Inr (JStr ''new''), ?w'\<lparr>nodes := (nodes ?w')(TOKEN_FILE \<mapsto> File (JsonText (JObj ?d')))\<rparr>)"
    using 3 example_refresh
      get_valid_token_gate[where w = example_world and d = stored_record and rt = "JStr ''r1''"
        and d' = ?d' and ?w1.0 = ?w' and tok = "JStr ''new''"]
    by blast
  have c4: "get_valid_token ?w4 = (Inr (JStr ''old''), ?w4)"
    using 4 get_valid_token_gate[where w = ?w4 and d = stored_record and tok = "JStr ''old''"]
    by blast
  show ?thesis
    unfolding c1 c2 c3 c4 by (simp add: TOKEN_FILE_def)
qed

text \<open>
  C10. When the stored record is not expired, that is, its \<^verbatim>\<open>expires_at\<close> is later than
  the current time plus 60 seconds, \<open>get_valid_token\<close> writes nothing: the world after the
  call, and with it the token file, is the world before the call.
\<close>

theorem get_valid_token_no_write:
  assumes "nodes w TOKEN_FILE = Some (File (JsonText (JObj d)))"
    and "dict_get d ''expires_at'' = Some v" and "num_of v = Some e"
    and "e > time_time w + 60"
  shows "snd (get_valid_token w) = w"
proof -
  have ne: "d \<noteq> []" using assms(2) by (auto simp: dict_get_def)
  have "is_token_expired d (time_time w) = Inr False"
    using assms by (auto simp: is_token_expired_def)
  then show ?thesis
    using assms(1) ne by (simp add: get_valid_token_def load_tokens_stored)
qed

theorem get_valid_token_no_write_witness:
  "nodes (example_world\<lparr>clock := (\<lambda>_. 900)\<rparr>) TOKEN_FILE
     = Some (File (JsonText (JObj stored_record)))
   \<and> dict_get stored_record ''expires_at'' = Some (JNum 1000)
   \<and> (1000 :: real) > time_time (example_world\<lparr>clock := (\<lambda>_. 900)\<rparr>) + 60
   \<and> snd (get_valid_token (example_world\<lparr>clock := (\<lambda>_. 900)\<rparr>))
       = example_world\<lparr>clock := (\<lambda>_. 900)\<rparr>"
  using get_valid_token_no_write[of "example_world\<lparr>clock := (\<lambda>_. 900)\<rparr>" stored_record
          "JNum 1000" 1000]
  by (simp add: world_simps)

text \<open>
  C7. \<open>load_tokens\<close> returns \<^verbatim>\<open>None\<close> for a missing file, for a file that is not JSON and
  for a path that cannot be opened, as the three lemmas above show. It does not for every
  corrupt file: when the bytes of the token file are not text, reading raises
  \<^verbatim>\<open>UnicodeDecodeError\<close>, which the handler does not name, and \<open>load_tokens\<close> raises it.
\<close>

theorem load_tokens_undecodable:
  "load_tokens TOKEN_FILE corrupt_world = Inl UnicodeDecodeError"
  by (simp add: load_tokens_def os_path_exists_def read_json_def corrupt_world_def world_simps)

lemma save_tokens_then_load:
  assumes "save_tokens token_data filepath w = (Inr (), w1)"
  shows "load_tokens filepath w1 = Inr (JObj token_data)"
proof -
  from assms obtain w0 where "write_json filepath (JObj token_data) w0 = (Inr (), w1)"
    by (auto simp: save_tokens_def split: prod.splits sum.splits)
  then have "nodes w1 filepath = Some (File (JsonText (JObj token_data)))"
    by (auto simp: write_json_def split: option.splits node.splits)
  then show ?thesis by (rule load_tokens_stored)
qed

text \<open>
  C9. Wherever \<open>save_tokens\<close> returns, \<open>load_tokens\<close> at the same path gives the saved
  record back, as the lemma above shows for a file that is known by the JSON value it
  holds. The save does not return for every path: for a path with no directory part, such
  as \<^verbatim>\<open>token.json\<close>, \<^verbatim>\<open>os.path.dirname\<close> is the empty string, \<^verbatim>\<open>os.makedirs\<close> refuses it
  with \<^verbatim>\<open>FileNotFoundError\<close>, and nothing is written, whatever the record and the world.
\<close>

theorem save_tokens_bare_filename:
  "save_tokens token_data ''token.json'' w = (Inl (OSError ''FileNotFoundError''), w)"
  by (simp add: save_tokens_def os_makedirs_def os_path_dirname_def)

section \<open>Properties of the redirect parser\<close>

lemma map_of_parse_qs_add:
  "map_of (parse_qs_add r nv) k =
     (if fst nv = k then
        (case map_of r k of Some vs \<Rightarrow> Some (vs @ [snd nv]) | None \<Rightarrow> Some [snd nv])
      else map_of r k)"
  by (auto simp: parse_qs_add_def update_conv' map_add_def split: option.splits)

lemma map_of_foldl_parse_qs_add:
  "map_of (foldl parse_qs_add r nvs) k =
     (let vals = map snd (filter (\<lambda>nv. fst nv = k) nvs)
      in case map_of r k of
           Some vs \<Rightarrow> Some (vs @ vals)
         | None \<Rightarrow> if vals = [] then None else Some vals)"
proof (induction nvs arbitrary: r)
  case Nil
  show ?case by (simp split: option.splits)
next
  case (Cons nv nvs)
  show ?case
    by (simp add: Cons.IH map_of_parse_qs_add Let_def split: option.splits)
qed

lemma map_of_parse_qs:
  "map_of (parse_qs qs) k = (if query_values k qs = [] then None else Some (query_values k qs))"
  by (simp add: parse_qs_def query_values_def map_of_foldl_parse_qs_add Let_def)

text \<open>
  C6, as the code has it. A parameter counts as present when the query gives it a value
  that is not blank. For every redirect URL that \<^verbatim>\<open>urlparse\<close> accepts,
  \<open>extract_code_from_url\<close> returns the first value of \<^verbatim>\<open>code\<close> when \<^verbatim>\<open>code\<close> is
  present, whether or not \<^verbatim>\<open>error\<close> is present too; with no \<^verbatim>\<open>code\<close> and with
  \<^verbatim>\<open>error\<close> present it fails with the authorization error that carries the first
  \<^verbatim>\<open>error\<close> value; with neither present it fails with the error that no authorization
  code was found.
\<close>

theorem extract_code_from_url_cases:
  assumes "urlparse_query redirect_url = Inr query"
  shows "extract_code_from_url redirect_url =
     (case query_values ''code'' query of
        code # _ \<Rightarrow> Inr code
      | [] \<Rightarrow>
          (case query_values ''error'' query of
             error # _ \<Rightarrow> Inl (ValueError (''Authorization failed: '' @ error))
           | [] \<Rightarrow> Inl (ValueError ''No authorization code found in redirect URL'')))"
  using assms
  by (simp add: extract_code_from_url_def map_of_parse_qs Let_def split: list.splits)

theorem extract_code_from_url_cases_witness:
  "urlparse_query ''?code=abc123'' = Inr ''code=abc123''
   \<and> extract_code_from_url ''?code=abc123'' = Inr ''abc123''
   \<and> urlparse_query ''?error=access_denied'' = Inr ''error=access_denied''
   \<and> extract_code_from_url ''?error=access_denied''
       = Inl (ValueError ''Authorization failed: access_denied'')
   \<and> urlparse_query ''http://localhost:8888/callback'' = Inr []
   \<and> extract_code_from_url ''http://localhost:8888/callback''
       = Inl (ValueError ''No authorization code found in redirect URL'')"
proof -
  have 1: "urlparse_query ''?code=abc123'' = Inr ''code=abc123''" by code_simp
  have 2: "urlparse_query ''?error=access_denied'' = Inr ''error=access_denied''" by code_simp
  have 3: "urlparse_query ''http://localhost:8888/callback'' = Inr []" by code_simp
  have v1: "query_values ''code'' ''code=abc123'' = [''abc123'']" by code_simp
  have v2: "query_values ''code'' ''error=access_denied'' = []
            \<and> query_values ''error'' ''error=access_denied'' = [''access_denied'']"
    by code_simp
  have v3: "query_values ''code'' [] = [] \<and> query_values ''error'' [] = []" by code_simp
  show ?thesis
    using extract_code_from_url_cases[OF 1] extract_code_from_url_cases[OF 2]
      extract_code_from_url_cases[OF 3] 1 2 3 v1 v2 v3
    by simp
qed

text \<open>
  C6 as stated fails: a redirect with both parameters has an \<^verbatim>\<open>error\<close> parameter, and
  \<open>extract_code_from_url\<close> returns the code instead of failing.
\<close>

theorem extract_code_from_url_error_present:
  "query_values ''error'' ''code=abc&error=access_denied'' = [''access_denied'']
   \<and> urlparse_query ''http://localhost:8888/callback?code=abc&error=access_denied''
       = Inr ''code=abc&error=access_denied''
   \<and> extract_code_from_url ''http://localhost:8888/callback?code=abc&error=access_denied''
       = Inr ''abc''"
  by code_simp

section \<open>Properties of the retry policy\<close>

lemma retry_loop_server_error_step:
  assumes "func w = Some (Inl (SpotifyException st hs), w1)" and "500 \<le> st"
    and "0 \<le> delay" and "attempt < max_retries - 1"
  shows "retry_loop func max_retries delay attempt w =
           retry_loop func max_retries delay (attempt + 1)
             (log_event (Slept (delay * 2 ^ nat attempt)) w1)"
  using assms
proof -
  have "\<not> delay * 2 ^ nat attempt < 0"
    using assms(3) by (simp add: not_less)
  then show ?thesis
    using assms by (subst retry_loop.simps) (simp add: time_sleep_def)
qed

lemma retry_loop_server_error_last:
  assumes "func w = Some (Inl (SpotifyException st hs), w1)" and "500 \<le> st"
    and "attempt = max_retries - 1"
  shows "retry_loop func max_retries delay attempt w = Some (Inl (SpotifyException st hs), w1)"
  using assms
  by (subst retry_loop.simps) simp

text \<open>
  C3. For a request function that raises a server error (status 500 or more) at every
  invocation, \<open>retry_request\<close> with the attempt cap 3 and a base delay that is not
  negative invokes it three times, sleeps \<open>delay * 2 ^ 0\<close> after the first failure and
  \<open>delay * 2 ^ 1\<close> after the second, and raises the exception of the third invocation in
  the world that invocation left: there is no fourth attempt and no third sleep. When each
  invocation adds one event \<open>ev\<close> to the trace, the trace grows by exactly three such
  events with the two sleeps between them.
\<close>

theorem retry_request_server_error:
  assumes always: "\<forall>w. \<exists>st hs w'. func w = Some (Inl (SpotifyException st hs), w') \<and> 500 \<le> st"
    and delay: "0 \<le> delay"
  shows "\<exists>e1 w1 e2 w2 st hs w3.
      func w = Some (Inl e1, w1)
    \<and> func (log_event (Slept delay) w1) = Some (Inl e2, w2)
    \<and> func (log_event (Slept (delay * 2)) w2) = Some (Inl (SpotifyException st hs), w3)
    \<and> 500 \<le> st
    \<and> retry_request func 3 delay w = Some (Inl (SpotifyException st hs), w3)
    \<and> ((\<forall>u r u'. func u = Some (r, u') \<longrightarrow> trace u' = trace u @ [ev]) \<longrightarrow>
         trace w3 = trace w @ [ev, Slept delay, ev, Slept (delay * 2), ev])"
proof -
  from always obtain st1 hs1 w1
    where 1: "func w = Some (Inl (SpotifyException st1 hs1), w1)" "500 \<le> st1" by blast
  let ?u1 = "log_event (Slept delay) w1"
  from always obtain st2 hs2 w2
    where 2: "func ?u1 = Some (Inl (SpotifyException st2 hs2), w2)" "500 \<le> st2" by blast
  let ?u2 = "log_event (Slept (delay * 2)) w2"
  from always obtain st3 hs3 w3
    where 3: "func ?u2 = Some (Inl (SpotifyException st3 hs3), w3)" "500 \<le> st3" by blast
  have "retry_request func 3 delay w = retry_loop func 3 delay 1 ?u1"
    using retry_loop_server_error_step[where func = func and w = w and attempt = 0
        and max_retries = 3, OF 1 delay]
    by (simp add: retry_request_def)
  also have "\<dots> = retry_loop func 3 delay 2 ?u2"
    using retry_loop_server_error_step[where func = func and w = ?u1 and attempt = 1
        and max_retries = 3, OF 2 delay]
    by simp
  also have "\<dots> = Some (Inl (SpotifyException st3 hs3), w3)"
    using retry_loop_server_error_last[where func = func and w = ?u2 and attempt = 2
        and max_retries = 3 and delay = delay, OF 3]
    by simp
  finally have r: "retry_request func 3 delay w = Some (Inl (SpotifyException st3 hs3), w3)" .
  have t: "trace w3 = trace w @ [ev, Slept delay, ev, Slept (delay * 2), ev]"
    if "\<forall>u r u'. func u = Some (r, u') \<longrightarrow> trace u' = trace u @ [ev]"
    using that 1 2 3 by (simp add: log_event_def)
  show ?thesis
    using 1 2 3 r t by blast
qed


theorem retry_request_server_error_witness:
  "(\<forall>w. \<exists>st hs w'. failing_request w = Some (Inl (SpotifyException st hs), w') \<and> 500 \<le> st)
   \<and> retry_request failing_request 3 1 example_world =
     Some (Inl (SpotifyException 503 (Some [])),
           example_world\<lparr>trace :=
             [Requested (JStr ''new'') (AudioFeatures [''t1'']), Slept 1,
              Requested (JStr ''new'') (AudioFeatures [''t1'']), Slept 2,
              Requested (JStr ''new'') (AudioFeatures [''t1''])]\<rparr>)"
proof -
  have a: "\<forall>w. \<exists>st hs w'. failing_request w = Some (Inl (SpotifyException st hs), w') \<and> 500 \<le> st"
    by (simp add: failing_request_def)
  have d: "(0::real) \<le> 1" by simp
  have t: "trace example_world = []" by (simp add: example_world_def)
  let ?ev = "Requested (JStr ''new'') (AudioFeatures [''t1''])"
  have f: "failing_request u = Some (Inl (SpotifyException 503 (Some [])), log_event ?ev u)" for u
    by (simp add: failing_request_def)
  from retry_request_server_error[OF a d, of example_world]
  obtain e1 w1 e2 w2 st hs w3 where
    1: "failing_request example_world = Some (Inl e1, w1)"
    and 2: "failing_request (log_event (Slept 1) w1) = Some (Inl e2, w2)"
    and 3: "failing_request (log_event (Slept (1 * 2)) w2) = Some (Inl (SpotifyException st hs), w3)"
    and r: "retry_request failing_request 3 1 example_world = Some (Inl (SpotifyException st hs), w3)"
    by blast
  from 1 have w1: "w1 = log_event ?ev example_world" by (simp add: f)
  from 2 have w2: "w2 = log_event ?ev (log_event (Slept 1) w1)" by (simp add: f)
  from 3 have w3: "w3 = log_event ?ev (log_event (Slept 2) w2)" "st = 503" "hs = Some []"
    by (simp_all add: f)
  have "w3 = example_world\<lparr>trace := [?ev, Slept 1, ?ev, Slept 2, ?ev]\<rparr>"
    by (simp add: w1 w2 w3 log_event_def t)
  with a r w3 show ?thesis by simp
qed

section \<open>Properties of pagination\<close>

lemma retry_request_first_success:
  assumes "func w = Some (Inr r, w1)" and "0 < max_retries"
  shows "retry_request func max_retries delay w = Some (Inr r, w1)"
  using assms by (simp add: retry_request_def retry_loop.simps)

lemma drain_pages_served:
  "served_pages client w p ps \<Longrightarrow>
   drain_pages client p tracks w =
     Some (Inr (tracks @ concat (map page_items ps)),
           w\<lparr>trace := trace w @ continuation_requests client (p # ps)\<rparr>)"
proof (induction ps arbitrary: w p tracks)
  case Nil
  then show ?case
    by (subst drain_pages.simps) (simp add: continuation_requests_def)
next
  case (Cons q qs)
  let ?w1 = "log_event (Requested client (NextPage (next_url p))) w"
  from Cons.prems have n: "truthy (next_url p)"
    and a: "pages_api w (trace w @ [Requested client (NextPage (next_url p))]) = Inr q"
    and s: "served_pages client ?w1 q qs"
    by simp_all
  have c: "client_next client p w = (Inr q, ?w1)"
    using n a by (simp add: client_next_def api_call_page_def log_event_def Let_def)
  have "drain_pages client p tracks w = drain_pages client q (tracks @ page_items q) ?w1"
    using n c by (subst drain_pages.simps) simp
  also have "\<dots> = Some (Inr ((tracks @ page_items q) @ concat (map page_items qs)),
           ?w1\<lparr>trace := trace ?w1 @ continuation_requests client (q # qs)\<rparr>)"
    by (rule Cons.IH[OF s])
  finally show ?case
    by (simp add: continuation_requests_def log_event_def)
qed

text \<open>
  C4. When the client is obtained, the first request is answered with the page \<open>p\<close> and
  the continuation requests with the pages \<open>ps\<close>, every page but the last carrying a
  continuation pointer, \<open>get_top_tracks\<close> returns one list: the items of \<open>p\<close> and of every
  page of \<open>ps\<close>, in the order of the pages and of the items in each page. It sends one
  request for each page and nothing else.
\<close>

theorem get_top_tracks_drains_pages:
  assumes "get_client self w = (Inr client, self1, w1)"
    and "pages_api w1 (trace w1 @ [Requested client (TopTracks time_range limit)]) = Inr p"
    and "served_pages client (log_event (Requested client (TopTracks time_range limit)) w1) p ps"
  shows "get_top_tracks self time_range limit w =
     Some (Inr (concat (map page_items (p # ps))), self1,
           w1\<lparr>trace := trace w1 @ Requested client (TopTracks time_range limit)
                          # continuation_requests client (p # ps)\<rparr>)"
proof -
  let ?w2 = "log_event (Requested client (TopTracks time_range limit)) w1"
  have "fetch_top_tracks client time_range limit w1 =
          drain_pages client p (page_items p) ?w2"
    using assms(2)
    by (simp add: fetch_top_tracks_def current_user_top_tracks_def api_call_page_def
          log_event_def Let_def)
  then have "fetch_top_tracks client time_range limit w1 =
     Some (Inr (page_items p @ concat (map page_items ps)),
           ?w2\<lparr>trace := trace ?w2 @ continuation_requests client (p # ps)\<rparr>)"
    using drain_pages_served[OF assms(3)] by simp
  then have "retry_request (fetch_top_tracks client time_range limit) 3 1 w1 =
     Some (Inr (page_items p @ concat (map page_items ps)),
           ?w2\<lparr>trace := trace ?w2 @ continuation_requests client (p # ps)\<rparr>)"
    by (intro retry_request_first_success) simp_all
  then show ?thesis
    using assms(1) by (simp add: get_top_tracks_def log_event_def)
qed

lemma paged_client:
  "get_client SpotifyAPIClient paged_world =
     (Inr (JStr ''old''), \<lparr>access_token = JStr ''old'', spotipy_client = Some (JStr ''old'')\<rparr>, paged_world)"
  by (simp add: get_client_def build_client_def SpotifyAPIClient_def get_valid_token_def
        load_tokens_def os_path_exists_def read_json_def is_token_expired_def dict_item_def
        get_client_credentials_def os_getenv_def paged_world_def world_simps)

theorem get_top_tracks_drains_pages_witness:
  "served_pages (JStr ''old'')
      (log_event (Requested (JStr ''old'') (TopTracks ''medium_term'' 50)) paged_world)
      page1 [page2, page3]
   \<and> get_top_tracks SpotifyAPIClient ''medium_term'' 50 paged_world =
     Some (Inr [JStr ''a'', JStr ''b'', JStr ''c'', JStr ''d''],
           \<lparr>access_token = JStr ''old'', spotipy_client = Some (JStr ''old'')\<rparr>,
           paged_world\<lparr>trace :=
             [Requested (JStr ''old'') (TopTracks ''medium_term'' 50),
              Requested (JStr ''old'') (NextPage (JStr ''page2'')),
              Requested (JStr ''old'') (NextPage (JStr ''page3''))]\<rparr>)"
proof -
  have t: "trace paged_world = []" and a: "pages_api paged_world = paged_api"
    by (simp_all add: paged_world_def example_world_def)
  have 1: "pages_api paged_world
             (trace paged_world @ [Requested (JStr ''old'') (TopTracks ''medium_term'' 50)])
           = Inr page1"
    by (simp add: t a paged_api_def)
  have 2: "served_pages (JStr ''old'')
      (log_event (Requested (JStr ''old'') (TopTracks ''medium_term'' 50)) paged_world)
      page1 [page2, page3]"
    by (simp add: log_event_def t a paged_api_def page1_def page2_def page3_def)
  show ?thesis
    using 2 get_top_tracks_drains_pages[OF paged_client 1 2]
    by (simp add: t continuation_requests_def page_items_def page1_def page2_def page3_def)
qed

section \<open>Properties of the batch fetch\<close>

lemma truthy_not_null: "truthy f \<Longrightarrow> f \<noteq> JNull"
  by auto

lemma filter_individual_result:
  "filter (\<lambda>f. f \<noteq> JNull) (concat (map (individual_result F) batch))
     = concat (map (individual_result F) batch)"
  by (induction batch)
     (auto simp: individual_result_def split: sum.splits list.splits dest: truthy_not_null)

lemma individual_requests_spec:
  assumes "\<forall>tr ids. features_api w (tr @ [Requested client (AudioFeatures ids)]) = F ids"
  shows "individual_requests client batch acc w =
     (acc @ concat (map (individual_result F) batch),
      w\<lparr>trace := trace w @
           concat (map (\<lambda>track_id. [Slept (1 / 10), Requested client (AudioFeatures [track_id])])
                    batch)\<rparr>)"
  using assms
proof (induction batch arbitrary: acc w)
  case Nil
  show ?case by simp
next
  case (Cons track_id batch)
  let ?w1 = "log_event (Slept (1 / 10)) w"
  let ?w2 = "log_event (Requested client (AudioFeatures [track_id])) ?w1"
  have s: "time_sleep (1 / 10) w = (Inr (), ?w1)" by (simp add: time_sleep_def)
  have "features_api w ((trace w @ [Slept (1 / 10)]) @ [Requested client (AudioFeatures [track_id])])
          = F [track_id]"
    using Cons.prems by blast
  then have a: "audio_features client [track_id] ?w1 = (F [track_id], ?w2)"
    by (simp add: audio_features_def log_event_def Let_def)
  have o: "\<forall>tr ids. features_api ?w2 (tr @ [Requested client (AudioFeatures ids)]) = F ids"
    using Cons.prems by (simp add: log_event_def)
  have t: "trace ?w2 = trace w @ [Slept (1 / 10), Requested client (AudioFeatures [track_id])]"
    by (simp add: log_event_def)
  have w: "?w2\<lparr>trace := trace ?w2 @ evs\<rparr>
             = w\<lparr>trace := trace w @ [Slept (1 / 10), Requested client (AudioFeatures [track_id])] @ evs\<rparr>" for evs
    by (simp add: log_event_def)
  show ?case
    by (simp add: s a Cons.IH[OF o] w individual_result_def split: sum.splits list.splits)
qed

lemma fetch_batch_spec:
  assumes "\<forall>tr ids. features_api w (tr @ [Requested client (AudioFeatures ids)]) = F ids"
  shows "fetch_batch client batch w =
     Some (Inr (case F batch of Inr features \<Rightarrow> features
                | Inl _ \<Rightarrow> concat (map (individual_result F) batch)),
           w\<lparr>trace := trace w @ batch_events client F batch\<rparr>)"
proof -
  let ?w1 = "log_event (Requested client (AudioFeatures batch)) w"
  have a: "audio_features client batch w = (F batch, ?w1)"
    using assms by (simp add: audio_features_def log_event_def Let_def)
  have o: "\<forall>tr ids. features_api ?w1 (tr @ [Requested client (AudioFeatures ids)]) = F ids"
    using assms by (simp add: log_event_def)
  have i: "individual_requests client batch [] ?w1 =
     (concat (map (individual_result F) batch),
      w\<lparr>trace := trace w @ Requested client (AudioFeatures batch) #
           concat (map (\<lambda>track_id. [Slept (1 / 10), Requested client (AudioFeatures [track_id])])
                    batch)\<rparr>)"
    by (simp add: individual_requests_spec[OF o]) (simp add: log_event_def)
  show ?thesis
  proof (cases "F batch")
    case (Inl e)
    then show ?thesis by (simp add: fetch_batch_def a i batch_events_def)
  next
    case (Inr features)
    then show ?thesis by (simp add: fetch_batch_def a batch_events_def log_event_def)
  qed
qed

lemma batches_loop_step:
  assumes "\<forall>tr ids. features_api w (tr @ [Requested client (AudioFeatures ids)]) = F ids"
    and "i < length track_ids"
  shows "batches_loop client track_ids i acc w =
     batches_loop client track_ids (i + 20)
       (acc @ batch_result F (take 20 (drop i track_ids)))
       (w\<lparr>trace := trace w @ batch_events client F (take 20 (drop i track_ids))
                     @ (if i + 20 < length track_ids then [Slept (2 / 10)] else [])\<rparr>)"
proof -
  let ?batch = "take 20 (drop i track_ids)"
  have r: "retry_request (fetch_batch client ?batch) 3 1 w =
     Some (Inr (case F ?batch of Inr features \<Rightarrow> features
                | Inl _ \<Rightarrow> concat (map (individual_result F) ?batch)),
           w\<lparr>trace := trace w @ batch_events client F ?batch\<rparr>)"
    by (intro retry_request_first_success fetch_batch_spec[OF assms(1)]) simp
  have f: "filter (\<lambda>f. f \<noteq> JNull)
             (case F ?batch of Inr features \<Rightarrow> features
              | Inl _ \<Rightarrow> concat (map (individual_result F) ?batch))
           = batch_result F ?batch"
    by (simp add: batch_result_def filter_individual_result split: sum.splits)
  show ?thesis
    using assms(2)
    by (subst batches_loop.simps) (simp add: r f time_sleep_def log_event_def Let_def)
qed

lemma batches_loop_done:
  "length track_ids \<le> i \<Longrightarrow> batches_loop client track_ids i acc w = Some (Inr acc, w)"
  by (subst batches_loop.simps) simp

text \<open>
  C8. For 45 track ids, a client that is obtained, and a Web API whose answer to an
  audio-features request depends on the requested ids only, \<open>get_audio_features_for_tracks\<close>
  cuts the ids into three batches of 20, 20 and 5 and sends one batch request for each,
  with a pause between them. A batch whose request succeeds gives its features that are
  not \<^verbatim>\<open>None\<close>. A batch whose request fails is followed by one request for each id of
  that batch and of no other, and gives the features of the ids whose own request
  succeeded. The call always returns the list of these features and never raises.
\<close>

theorem get_audio_features_45:
  assumes len: "length track_ids = 45"
    and client: "get_client self w = (Inr client, self1, w1)"
    and api: "\<forall>tr ids. features_api w1 (tr @ [Requested client (AudioFeatures ids)]) = F ids"
  shows "length (take 20 track_ids) = 20 \<and> length (take 20 (drop 20 track_ids)) = 20
     \<and> length (drop 40 track_ids) = 5
     \<and> get_audio_features_for_tracks self track_ids w =
        Some (Inr (batch_result F (take 20 track_ids)
                   @ batch_result F (take 20 (drop 20 track_ids))
                   @ batch_result F (drop 40 track_ids)),
              self1,
              w1\<lparr>trace := trace w1
                   @ batch_events client F (take 20 track_ids) @ [Slept (2 / 10)]
                   @ batch_events client F (take 20 (drop 20 track_ids)) @ [Slept (2 / 10)]
                   @ batch_events client F (drop 40 track_ids)\<rparr>)"
proof -
  let ?b1 = "take 20 track_ids" and ?b2 = "take 20 (drop 20 track_ids)"
    and ?b3 = "drop 40 track_ids"
  let ?w2 = "w1\<lparr>trace := trace w1 @ batch_events client F ?b1 @ [Slept (2 / 10)]\<rparr>"
  let ?w3 = "?w2\<lparr>trace := trace ?w2 @ batch_events client F ?b2 @ [Slept (2 / 10)]\<rparr>"
  let ?w4 = "?w3\<lparr>trace := trace ?w3 @ batch_events client F ?b3\<rparr>"
  have api2: "\<forall>tr ids. features_api ?w2 (tr @ [Requested client (AudioFeatures ids)]) = F ids"
    and api3: "\<forall>tr ids. features_api ?w3 (tr @ [Requested client (AudioFeatures ids)]) = F ids"
    using api by simp_all
  have "batches_loop client track_ids 0 [] w1 =
          batches_loop client track_ids 20 (batch_result F ?b1) ?w2"
    using batches_loop_step[OF api, of 0 track_ids "[]"] len by simp
  also have "\<dots> = batches_loop client track_ids 40
                      (batch_result F ?b1 @ batch_result F ?b2) ?w3"
    using batches_loop_step[OF api2, of 20 track_ids "batch_result F ?b1"] len by simp
  also have "\<dots> = batches_loop client track_ids 60
                      (batch_result F ?b1 @ batch_result F ?b2 @ batch_result F ?b3) ?w4"
    using batches_loop_step[OF api3, of 40 track_ids "batch_result F ?b1 @ batch_result F ?b2"]
      len by simp
  also have "\<dots> = Some (Inr (batch_result F ?b1 @ batch_result F ?b2 @ batch_result F ?b3), ?w4)"
    using len by (intro batches_loop_done) simp
  finally have "batches_loop client track_ids 0 [] w1 =
      Some (Inr (batch_result F ?b1 @ batch_result F ?b2 @ batch_result F ?b3), ?w4)" .
  then show ?thesis
    using client len by (simp add: get_audio_features_for_tracks_def)
qed

lemma batch_client:
  "get_client SpotifyAPIClient batch_world =
     (Inr (JStr ''old''), \<lparr>access_token = JStr ''old'', spotipy_client = Some (JStr ''old'')\<rparr>, batch_world)"
  by (simp add: get_client_def build_client_def SpotifyAPIClient_def get_valid_token_def
        load_tokens_def os_path_exists_def read_json_def is_token_expired_def dict_item_def
        get_client_credentials_def os_getenv_def batch_world_def world_simps)

theorem get_audio_features_45_witness:
  "length example_ids = 45
   \<and> (\<forall>tr ids. features_api batch_world (tr @ [Requested (JStr ''old'') (AudioFeatures ids)])
                 = feature_server ids)
   \<and> (\<exists>self1 w2. get_audio_features_for_tracks SpotifyAPIClient example_ids batch_world =
         Some (Inr (map feature_of (filter (\<lambda>i. i \<noteq> ''t21'') example_ids)), self1, w2))"
proof -
  have len: "length example_ids = 45" by (simp add: example_ids_def)
  have api: "\<forall>tr ids. features_api batch_world (tr @ [Requested (JStr ''old'') (AudioFeatures ids)])
                 = feature_server ids"
    by (simp add: batch_world_def example_world_def batch_api_def)
  have r: "batch_result feature_server (take 20 example_ids)
           @ batch_result feature_server (take 20 (drop 20 example_ids))
           @ batch_result feature_server (drop 40 example_ids)
           = map feature_of (filter (\<lambda>i. i \<noteq> ''t21'') example_ids)"
    by code_simp
  show ?thesis
    using len api get_audio_features_45[OF len batch_client api] by (simp add: r)
qed

end
